theory Spec2Isabelle
  imports Complex_Main
begin

section \<open>JavaScript numbers and strings\<close>

text \<open>
  A JavaScript number is a binary64 value: \<open>NaN\<close>, an infinity, or a finite value, given
  here by the rational it denotes. Every arithmetic result is the exact result rounded to
  the nearest binary64 value, ties to the even significand, and a result that rounds past
  the largest finite value is an infinity. The sign of zero is not represented:
  \<open>Fin 0\<close> stands for both zeros.
\<close>

datatype jsnum = NaN | NegInf | Fin rat | PosInf

definition pow2 :: "int \<Rightarrow> rat" where
  "pow2 e = (if e < 0 then 1 / 2 ^ nat (- e) else 2 ^ nat e)"

function bit_length :: "int \<Rightarrow> int" where
  "bit_length n = (if n \<le> 0 then 0 else 1 + bit_length (n div 2))"
  by pat_completeness auto
termination
  by (relation "measure nat") auto

declare bit_length.simps [simp del]

text \<open>
  For positive \<open>x\<close>, the \<open>k\<close> with \<open>2 ^ k \<le> x < 2 ^ (k + 1)\<close>: it is the difference of the
  bit lengths of numerator and denominator, or one less.
\<close>

definition floor_log2 :: "rat \<Rightarrow> int" where
  "floor_log2 x =
     (let k = bit_length (fst (quotient_of x)) - bit_length (snd (quotient_of x))
      in if pow2 k \<le> x then k else k - 1)"

definition round_half_even :: "rat \<Rightarrow> int" where
  "round_half_even q =
     (let f = \<lfloor>q\<rfloor>; r = q - of_int f
      in if r < 1 / 2 then f else if 1 / 2 < r then f + 1
         else if even f then f else f + 1)"

text \<open>
  Rounding to binary64: a significand of 53 bits at the exponent of \<open>x\<close>, the exponent
  not below that of the subnormal values (the unit \<open>2 ^ -1074\<close>); the largest finite
  value has the significand \<open>2 ^ 53 - 1\<close> at the unit \<open>2 ^ 971\<close>.
\<close>

definition binary64 :: "rat \<Rightarrow> jsnum" where
  "binary64 x =
     (if x = 0 then Fin 0
      else
        let e = max (floor_log2 \<bar>x\<bar> - 52) (- 1074);
            m = round_half_even (\<bar>x\<bar> / pow2 e)
        in if 971 < e \<or> (e = 971 \<and> 2 ^ 53 \<le> m) then (if x < 0 then NegInf else PosInf)
           else Fin (if x < 0 then - (of_int m * pow2 e) else of_int m * pow2 e))"

fun js_neg :: "jsnum \<Rightarrow> jsnum" where
  "js_neg NaN = NaN"
| "js_neg NegInf = PosInf"
| "js_neg PosInf = NegInf"
| "js_neg (Fin a) = Fin (- a)"

fun js_add :: "jsnum \<Rightarrow> jsnum \<Rightarrow> jsnum" where
  "js_add NaN _ = NaN"
| "js_add _ NaN = NaN"
| "js_add PosInf NegInf = NaN"
| "js_add NegInf PosInf = NaN"
| "js_add PosInf _ = PosInf"
| "js_add _ PosInf = PosInf"
| "js_add NegInf _ = NegInf"
| "js_add _ NegInf = NegInf"
| "js_add (Fin a) (Fin b) = binary64 (a + b)"

definition js_sub :: "jsnum \<Rightarrow> jsnum \<Rightarrow> jsnum" where
  "js_sub x y = js_add x (js_neg y)"

definition js_sign :: "jsnum \<Rightarrow> int" where
  "js_sign x = (case x of NaN \<Rightarrow> 0 | NegInf \<Rightarrow> - 1 | PosInf \<Rightarrow> 1
     | Fin a \<Rightarrow> (if a < 0 then - 1 else if a = 0 then 0 else 1))"

fun js_mul :: "jsnum \<Rightarrow> jsnum \<Rightarrow> jsnum" where
  "js_mul NaN _ = NaN"
| "js_mul _ NaN = NaN"
| "js_mul (Fin a) (Fin b) = binary64 (a * b)"
| "js_mul x y =
     (if js_sign x * js_sign y = 0 then NaN
      else if js_sign x * js_sign y < 0 then NegInf else PosInf)"

text \<open>Division: a finite value over zero is an infinity, zero over zero is \<open>NaN\<close>.\<close>

fun js_div :: "jsnum \<Rightarrow> jsnum \<Rightarrow> jsnum" where
  "js_div NaN _ = NaN"
| "js_div _ NaN = NaN"
| "js_div (Fin a) (Fin b) =
     (if b \<noteq> 0 then binary64 (a / b)
      else if a = 0 then NaN else if a < 0 then NegInf else PosInf)"
| "js_div (Fin a) _ = Fin 0"
| "js_div PosInf (Fin b) = (if b < 0 then NegInf else PosInf)"
| "js_div NegInf (Fin b) = (if b < 0 then PosInf else NegInf)"
| "js_div _ _ = NaN"

text \<open>Comparisons: every comparison with \<open>NaN\<close> is false.\<close>

fun js_lt :: "jsnum \<Rightarrow> jsnum \<Rightarrow> bool" where
  "js_lt NaN _ = False"
| "js_lt _ NaN = False"
| "js_lt PosInf _ = False"
| "js_lt _ NegInf = False"
| "js_lt NegInf _ = True"
| "js_lt _ PosInf = True"
| "js_lt (Fin a) (Fin b) = (a < b)"

definition js_gt :: "jsnum \<Rightarrow> jsnum \<Rightarrow> bool" where
  "js_gt x y = js_lt y x"

definition js_le :: "jsnum \<Rightarrow> jsnum \<Rightarrow> bool" where
  "js_le x y = (x \<noteq> NaN \<and> y \<noteq> NaN \<and> \<not> js_lt y x)"

definition js_ge :: "jsnum \<Rightarrow> jsnum \<Rightarrow> bool" where
  "js_ge x y = js_le y x"

definition isNaN :: "jsnum \<Rightarrow> bool" where
  "isNaN x = (x = NaN)"

definition isFinite :: "jsnum \<Rightarrow> bool" where
  "isFinite x = (case x of Fin _ \<Rightarrow> True | _ \<Rightarrow> False)"

text \<open>Truthiness: a number is falsy when it is zero or \<open>NaN\<close>, a string when it is empty.\<close>

definition num_truthy :: "jsnum \<Rightarrow> bool" where
  "num_truthy x = (x \<noteq> NaN \<and> x \<noteq> Fin 0)"

definition str_truthy :: "string \<Rightarrow> bool" where
  "str_truthy s = (s \<noteq> [])"

text \<open>The idiom \<^verbatim>\<open>x || 0\<close>.\<close>

definition or_zero :: "jsnum \<Rightarrow> jsnum" where
  "or_zero x = (if num_truthy x then x else Fin 0)"

subsection \<open>\<^verbatim>\<open>parseFloat\<close> and \<^verbatim>\<open>parseInt\<close>\<close>

text \<open>
  Both built-ins skip leading white space and read the longest prefix that is a literal of
  their grammar; with no such prefix the result is \<open>NaN\<close>. The value of the literal is
  rounded to binary64. Strings are byte lists, so the white space recognised is the ASCII
  part of the language's white space.
\<close>

definition is_space :: "char \<Rightarrow> bool" where
  "is_space c = (c \<in> set [CHR '' '', CHR 0x09, CHR 0x0A, CHR 0x0B, CHR 0x0C, CHR 0x0D])"

definition is_digit :: "char \<Rightarrow> bool" where
  "is_digit c = (48 \<le> (of_char c :: nat) \<and> (of_char c :: nat) \<le> 57)"

definition digit_val :: "char \<Rightarrow> int" where
  "digit_val c = of_char c - 48"

definition digits_val :: "string \<Rightarrow> int" where
  "digits_val ds = foldl (\<lambda>acc c. 10 * acc + digit_val c) 0 ds"

definition is_hex_digit :: "char \<Rightarrow> bool" where
  "is_hex_digit c = (is_digit c \<or> (65 \<le> (of_char c :: nat) \<and> (of_char c :: nat) \<le> 70)
     \<or> (97 \<le> (of_char c :: nat) \<and> (of_char c :: nat) \<le> 102))"

definition hex_digit_val :: "char \<Rightarrow> int" where
  "hex_digit_val c =
     (if is_digit c then of_char c - 48
      else if (of_char c :: nat) \<le> 70 then of_char c - 55 else of_char c - 87)"

definition hex_val :: "string \<Rightarrow> int" where
  "hex_val ds = foldl (\<lambda>acc c. 16 * acc + hex_digit_val c) 0 ds"

definition starts_with :: "string \<Rightarrow> string \<Rightarrow> bool" where
  "starts_with p s = (take (length p) s = p)"

text \<open>The exponent part \<^verbatim>\<open>e[+-]digits\<close>, read only when at least one digit follows.\<close>

definition exponent_of :: "string \<Rightarrow> int" where
  "exponent_of s =
     (case s of
        [] \<Rightarrow> 0
      | c # r \<Rightarrow>
          if c = CHR ''e'' \<or> c = CHR ''E'' then
            (case r of
               [] \<Rightarrow> 0
             | d # r' \<Rightarrow>
                 if d = CHR ''-'' then - digits_val (takeWhile is_digit r')
                 else if d = CHR ''+'' then digits_val (takeWhile is_digit r')
                 else digits_val (takeWhile is_digit r))
          else 0)"

definition pow10 :: "int \<Rightarrow> rat" where
  "pow10 e = (if e < 0 then 1 / 10 ^ nat (- e) else 10 ^ nat e)"

text \<open>An unsigned decimal literal: \<^verbatim>\<open>Infinity\<close>, or digits with an optional fraction and exponent.\<close>

definition parse_unsigned :: "string \<Rightarrow> jsnum" where
  "parse_unsigned s =
     (if starts_with ''Infinity'' s then PosInf
      else
        let ip = takeWhile is_digit s;
            r1 = dropWhile is_digit s;
            dot = (r1 \<noteq> [] \<and> hd r1 = CHR ''.'');
            fp = (if dot then takeWhile is_digit (tl r1) else []);
            r2 = (if dot then dropWhile is_digit (tl r1) else r1)
        in if ip = [] \<and> fp = [] then NaN
           else binary64 ((of_int (digits_val ip) + of_int (digits_val fp) / 10 ^ length fp)
                          * pow10 (exponent_of r2)))"

definition parseFloat :: "string \<Rightarrow> jsnum" where
  "parseFloat str =
     (let s = dropWhile is_space str
      in case s of
           [] \<Rightarrow> NaN
         | c # r \<Rightarrow>
             if c = CHR ''-'' then js_neg (parse_unsigned r)
             else if c = CHR ''+'' then parse_unsigned r
             else parse_unsigned s)"

text \<open>\<^verbatim>\<open>parseInt\<close> without a radix: decimal digits, or hexadecimal after \<^verbatim>\<open>0x\<close>.\<close>

definition parse_unsigned_int :: "string \<Rightarrow> jsnum" where
  "parse_unsigned_int s =
     (if starts_with ''0x'' s \<or> starts_with ''0X'' s then
        (let ds = takeWhile is_hex_digit (drop 2 s)
         in if ds = [] then NaN else binary64 (of_int (hex_val ds)))
      else
        (let ds = takeWhile is_digit s
         in if ds = [] then NaN else binary64 (of_int (digits_val ds))))"

definition parseInt :: "string \<Rightarrow> jsnum" where
  "parseInt str =
     (let s = dropWhile is_space str
      in case s of
           [] \<Rightarrow> NaN
         | c # r \<Rightarrow>
             if c = CHR ''-'' then js_neg (parse_unsigned_int r)
             else if c = CHR ''+'' then parse_unsigned_int r
             else parse_unsigned_int s)"

section \<open>Earnings screen\<close>

text \<open>The form state of \<^verbatim>\<open>EarningsScreen\<close>: every field holds the text of its input.\<close>

record formData =
  totalEarnings :: string
  tripsCompleted :: string
  kilometersDriver :: string
  hoursWorked :: string
  tips :: string
  extras :: string
  fuelCost :: string
  otherExpenses :: string

record calculations =
  grossEarnings :: jsnum
  grossPerKm :: jsnum
  grossPerHour :: jsnum
  grossPerTrip :: jsnum
  totalExpenses :: jsnum
  netEarnings :: jsnum
  netPerKm :: jsnum
  netPerHour :: jsnum
  netPerTrip :: jsnum

text \<open>\<^verbatim>\<open>parseFloat(field) || 0\<close>, the value the calculator takes for a field.\<close>

definition field_value :: "string \<Rightarrow> jsnum" where
  "field_value s = or_zero (parseFloat s)"

definition calculateValues :: "formData \<Rightarrow> calculations" where
  "calculateValues fd =
     (let totalEarnings' = field_value (totalEarnings fd);
          tripsCompleted' = field_value (tripsCompleted fd);
          kilometersDriver' = field_value (kilometersDriver fd);
          hoursWorked' = field_value (hoursWorked fd);
          tips' = field_value (tips fd);
          extras' = field_value (extras fd);
          fuelCost' = field_value (fuelCost fd);
          otherExpenses' = field_value (otherExpenses fd);
          grossEarnings' = js_add (js_add totalEarnings' tips') extras';
          totalExpenses' = js_add fuelCost' otherExpenses';
          netEarnings' = js_sub grossEarnings' totalExpenses'
      in \<lparr> grossEarnings = grossEarnings',
           grossPerKm = (if js_gt kilometersDriver' (Fin 0)
                         then js_div grossEarnings' kilometersDriver' else Fin 0),
           grossPerHour = (if js_gt hoursWorked' (Fin 0)
                           then js_div grossEarnings' hoursWorked' else Fin 0),
           grossPerTrip = (if js_gt tripsCompleted' (Fin 0)
                           then js_div grossEarnings' tripsCompleted' else Fin 0),
           totalExpenses = totalExpenses',
           netEarnings = netEarnings',
           netPerKm = (if js_gt kilometersDriver' (Fin 0)
                       then js_div netEarnings' kilometersDriver' else Fin 0),
           netPerHour = (if js_gt hoursWorked' (Fin 0)
                         then js_div netEarnings' hoursWorked' else Fin 0),
           netPerTrip = (if js_gt tripsCompleted' (Fin 0)
                         then js_div netEarnings' tripsCompleted' else Fin 0) \<rparr>)"

text \<open>
  The screen's state. \<open>calculations\<close> is recomputed by an effect after every change of
  \<open>formData\<close>, so \<open>setFormData\<close> stores both. \<open>shown\<close> is the log of the
  notifications passed to \<^verbatim>\<open>showNotification\<close>, oldest first; hiding a
  banner (after three seconds, or when the user types) is presentation and is left out, and
  message texts are written without accents. \<^verbatim>\<open>refreshHistory\<close> only reloads the
  history view and is left out as well.
\<close>

datatype notif_kind = success | error

type_synonym notif = "notif_kind \<times> string"

record earnings_screen =
  formData :: formData
  calculations :: calculations
  loading :: bool
  shown :: "notif list"

definition empty_form :: formData where
  "empty_form = \<lparr> totalEarnings = [], tripsCompleted = [], kilometersDriver = [],
     hoursWorked = [], tips = [], extras = [], fuelCost = [], otherExpenses = [] \<rparr>"

definition setFormData :: "formData \<Rightarrow> earnings_screen \<Rightarrow> earnings_screen" where
  "setFormData fd st = st\<lparr> formData := fd, calculations := calculateValues fd \<rparr>"

definition initial_earnings_screen :: earnings_screen where
  "initial_earnings_screen =
     \<lparr> formData = empty_form, calculations = calculateValues empty_form,
       loading = False, shown = [] \<rparr>"

text \<open>\<^verbatim>\<open>handleInputChange\<close>: the input named \<open>name\<close> now reads \<open>v\<close>.\<close>

definition handleInputChange :: "string \<Rightarrow> string \<Rightarrow> earnings_screen \<Rightarrow> earnings_screen" where
  "handleInputChange name v st =
     (let prev = formData st
      in setFormData
           (if name = ''totalEarnings'' then prev\<lparr> totalEarnings := v \<rparr>
            else if name = ''tripsCompleted'' then prev\<lparr> tripsCompleted := v \<rparr>
            else if name = ''kilometersDriver'' then prev\<lparr> kilometersDriver := v \<rparr>
            else if name = ''hoursWorked'' then prev\<lparr> hoursWorked := v \<rparr>
            else if name = ''tips'' then prev\<lparr> tips := v \<rparr>
            else if name = ''extras'' then prev\<lparr> extras := v \<rparr>
            else if name = ''fuelCost'' then prev\<lparr> fuelCost := v \<rparr>
            else if name = ''otherExpenses'' then prev\<lparr> otherExpenses := v \<rparr>
            else prev) st)"

text \<open>A calendar date, the content of a \<^verbatim>\<open>YYYY-MM-DD\<close> string.\<close>

record date =
  year :: int
  month :: int
  day :: int

definition leap_year :: "int \<Rightarrow> bool" where
  "leap_year y = (y mod 4 = 0 \<and> (y mod 100 \<noteq> 0 \<or> y mod 400 = 0))"

definition days_in_month :: "int \<Rightarrow> int \<Rightarrow> int" where
  "days_in_month y m =
     (if m = 2 then (if leap_year y then 29 else 28)
      else if m = 4 \<or> m = 6 \<or> m = 9 \<or> m = 11 then 30 else 31)"

definition valid_date :: "date \<Rightarrow> bool" where
  "valid_date d = (1 \<le> month d \<and> month d \<le> 12 \<and> 1 \<le> day d \<and> day d \<le> days_in_month (year d) (month d))"

text \<open>A row of \<^verbatim>\<open>earnings_records\<close> as \<^verbatim>\<open>handleSave\<close> builds it.\<close>

record earnings_record =
  user_id_e :: string
  date_e :: date
  total_earnings :: jsnum
  trips_completed :: jsnum
  kilometers_driven :: jsnum
  hours_worked :: jsnum
  tips_e :: jsnum
  extras_e :: jsnum
  fuel_cost :: jsnum
  other_expenses :: jsnum
  gross_earnings :: jsnum
  gross_per_km :: jsnum
  gross_per_hour :: jsnum
  gross_per_trip :: jsnum
  total_expenses :: jsnum
  net_earnings :: jsnum
  net_per_km :: jsnum
  net_per_hour :: jsnum
  net_per_trip :: jsnum

definition earningsData :: "string \<Rightarrow> date \<Rightarrow> earnings_screen \<Rightarrow> earnings_record" where
  "earningsData uid today st =
     \<lparr> user_id_e = uid,
       date_e = today,
       total_earnings = parseFloat (totalEarnings (formData st)),
       trips_completed = parseInt (tripsCompleted (formData st)),
       kilometers_driven = parseFloat (kilometersDriver (formData st)),
       hours_worked = parseFloat (hoursWorked (formData st)),
       tips_e = or_zero (parseFloat (tips (formData st))),
       extras_e = or_zero (parseFloat (extras (formData st))),
       fuel_cost = or_zero (parseFloat (fuelCost (formData st))),
       other_expenses = or_zero (parseFloat (otherExpenses (formData st))),
       gross_earnings = grossEarnings (calculations st),
       gross_per_km = grossPerKm (calculations st),
       gross_per_hour = grossPerHour (calculations st),
       gross_per_trip = grossPerTrip (calculations st),
       total_expenses = totalExpenses (calculations st),
       net_earnings = netEarnings (calculations st),
       net_per_km = netPerKm (calculations st),
       net_per_hour = netPerHour (calculations st),
       net_per_trip = netPerTrip (calculations st) \<rparr>"

text \<open>
  \<^verbatim>\<open>handleSave\<close> of the earnings screen. \<open>user\<close> is the signed-in user's id, if
  any; \<open>today\<close> the current UTC date; \<open>insert_fails\<close> says whether the store answers
  the insert with an error; the table is the content of \<^verbatim>\<open>earnings_records\<close>.
\<close>

definition earnings_handleSave ::
  "string option \<Rightarrow> date \<Rightarrow> bool \<Rightarrow> earnings_screen \<times> earnings_record list
     \<Rightarrow> earnings_screen \<times> earnings_record list" where
  "earnings_handleSave user today insert_fails w =
     (let st = fst w; table = snd w
      in case user of
           None \<Rightarrow> (st, table)
         | Some uid \<Rightarrow>
             let missingFields =
                   filter (\<lambda>field. \<not> str_truthy field)
                     [totalEarnings (formData st), tripsCompleted (formData st),
                      kilometersDriver (formData st), hoursWorked (formData st)]
             in if length missingFields > 0 then
                  (st\<lparr> shown := shown st @ [(error, ''Por favor completa todos los campos obligatorios'')] \<rparr>,
                   table)
                else if insert_fails then
                  (st\<lparr> shown := shown st @ [(error, ''No se pudo guardar el registro'')],
                       loading := False \<rparr>,
                   table)
                else
                  ((setFormData empty_form st)
                     \<lparr> shown := shown st @ [(success, ''Registro guardado correctamente'')],
                       loading := False \<rparr>,
                   table @ [earningsData uid today st]))"

section \<open>Services screen\<close>

text \<open>
  \<^verbatim>\<open>SERVICE_TYPES\<close>: the key, the rule kind and the rule's amount of every service type
  (label, icon, colour and description are presentation).
\<close>

datatype rule = years | km

record service_type_info =
  key :: string
  rule :: rule
  svc_value :: int

definition SERVICE_TYPES :: "service_type_info list" where
  "SERVICE_TYPES =
     [\<lparr> key = ''vtv'', rule = years, svc_value = 2 \<rparr>,
      \<lparr> key = ''oil_change'', rule = km, svc_value = 10000 \<rparr>,
      \<lparr> key = ''timing_belt'', rule = km, svc_value = 70000 \<rparr>,
      \<lparr> key = ''brakes'', rule = km, svc_value = 40000 \<rparr>]"

text \<open>
  A \<^verbatim>\<open>Date\<close> is an instant: a calendar day of UTC and the milliseconds into it.
  Built from a date-only string it is that day at midnight UTC. As in V8, a day number up
  to 31 is accepted in every month and carried into the next month; any other string that
  is no calendar date gives an invalid \<^verbatim>\<open>Date\<close>, on which
  \<^verbatim>\<open>toISOString\<close> throws \<^verbatim>\<open>RangeError\<close>. Years are taken to lie within
  the range of time values.
\<close>

datatype js_error = RangeError | StoreError

type_synonym instant = "date \<times> int"

definition MakeDay :: "int \<Rightarrow> int \<Rightarrow> int \<Rightarrow> date" where
  "MakeDay y m d =
     (if d \<le> days_in_month y m then \<lparr> year = y, month = m, day = d \<rparr>
      else \<lparr> year = y, month = m + 1, day = d - days_in_month y m \<rparr>)"

definition new_Date :: "date \<Rightarrow> instant option" where
  "new_Date s =
     (if 1 \<le> month s \<and> month s \<le> 12 \<and> 1 \<le> day s \<and> day s \<le> 31
      then Some (MakeDay (year s) (month s) (day s), 0) else None)"

definition next_day :: "date \<Rightarrow> date" where
  "next_day d =
     (if day d < days_in_month (year d) (month d) then d\<lparr> day := day d + 1 \<rparr>
      else if month d < 12 then \<lparr> year = year d, month = month d + 1, day = 1 \<rparr>
      else \<lparr> year = year d + 1, month = 1, day = 1 \<rparr>)"

definition prev_day :: "date \<Rightarrow> date" where
  "prev_day d =
     (if 1 < day d then d\<lparr> day := day d - 1 \<rparr>
      else if 1 < month d
        then \<lparr> year = year d, month = month d - 1, day = days_in_month (year d) (month d - 1) \<rparr>
      else \<lparr> year = year d - 1, month = 12, day = 31 \<rparr>)"

text \<open>An instant moved by less than a day, in milliseconds.\<close>

definition shift :: "instant \<Rightarrow> int \<Rightarrow> instant" where
  "shift t delta =
     (let ms = snd t + delta
      in if ms < 0 then (prev_day (fst t), ms + 86400000)
         else if 86400000 \<le> ms then (next_day (fst t), ms - 86400000)
         else (fst t, ms))"

text \<open>
  The runtime's time zone: the offset from UTC in milliseconds that is in force at an
  instant of UTC, and at a local wall-clock time. A zone without daylight saving has one
  offset throughout.
\<close>

record zone =
  offset_at_utc :: "instant \<Rightarrow> int"
  offset_at_local :: "instant \<Rightarrow> int"

definition fixed_zone :: "int \<Rightarrow> zone" where
  "fixed_zone minutes =
     \<lparr> offset_at_utc = (\<lambda>t. minutes * 60000), offset_at_local = (\<lambda>t. minutes * 60000) \<rparr>"

definition LocalTime :: "zone \<Rightarrow> instant \<Rightarrow> instant" where
  "LocalTime z t = shift t (offset_at_utc z t)"

definition UTC :: "zone \<Rightarrow> instant \<Rightarrow> instant" where
  "UTC z t = shift t (- offset_at_local z t)"

text \<open>
  \<^verbatim>\<open>getFullYear\<close> and \<^verbatim>\<open>setFullYear\<close> read and write the local time;
  \<^verbatim>\<open>toISOString\<close> prints UTC, and its part before \<^verbatim>\<open>T\<close> is the day of UTC.
\<close>

definition getFullYear :: "zone \<Rightarrow> instant \<Rightarrow> int" where
  "getFullYear z t = year (fst (LocalTime z t))"

definition setFullYear :: "zone \<Rightarrow> instant \<Rightarrow> int \<Rightarrow> instant" where
  "setFullYear z t y =
     (let lt = LocalTime z t
      in UTC z (MakeDay y (month (fst lt)) (day (fst lt)), snd lt))"

definition toISOString_date :: "instant \<Rightarrow> date" where
  "toISOString_date t = fst t"

text \<open>Days from 1970-01-01 to a date of the proleptic Gregorian calendar.\<close>

definition days_from_civil :: "int \<Rightarrow> int \<Rightarrow> int \<Rightarrow> int" where
  "days_from_civil y m d =
     (let y' = (if m \<le> 2 then y - 1 else y);
          m' = (if m \<le> 2 then m + 9 else m - 3)
      in 365 * y' + y' div 4 - y' div 100 + y' div 400 + (153 * m' + 2) div 5 + d - 1 - 719468)"

text \<open>\<^verbatim>\<open>new Date(s).getTime()\<close>; a time value beyond 8.64e15 ms is \<open>NaN\<close>.\<close>

definition getTime :: "date \<Rightarrow> jsnum" where
  "getTime s =
     (case new_Date s of
        None \<Rightarrow> NaN
      | Some t \<Rightarrow>
          let tv = days_from_civil (year (fst t)) (month (fst t)) (day (fst t)) * 86400000 + snd t
          in if \<bar>tv\<bar> \<le> 8640000000000000 then Fin (of_int tv) else NaN)"

fun js_ceil :: "jsnum \<Rightarrow> jsnum" where
  "js_ceil (Fin a) = Fin (of_int \<lceil>a\<rceil>)"
| "js_ceil x = x"

record next_service =
  next_service_date :: "date option"
  next_service_mileage :: "jsnum option"

text \<open>
  \<^verbatim>\<open>calculateNextService\<close>, in a runtime whose zone is \<open>z\<close>.
\<close>

definition calculateNextService ::
  "zone \<Rightarrow> string \<Rightarrow> jsnum \<Rightarrow> date \<Rightarrow> js_error + next_service" where
  "calculateNextService z serviceType currentMileage serviceDate =
     (case List.find (\<lambda>s. key s = serviceType) SERVICE_TYPES of
        None \<Rightarrow> Inr \<lparr> next_service_date = None, next_service_mileage = None \<rparr>
      | Some service \<Rightarrow>
          if rule service = years then
            (case new_Date serviceDate of
               None \<Rightarrow> Inl RangeError
             | Some nextDate \<Rightarrow>
                 Inr \<lparr> next_service_date =
                         Some (toISOString_date
                                 (setFullYear z nextDate (getFullYear z nextDate + svc_value service))),
                       next_service_mileage = None \<rparr>)
          else
            Inr \<lparr> next_service_date = None,
                  next_service_mileage =
                    Some (js_add currentMileage (Fin (of_int (svc_value service)))) \<rparr>)"

text \<open>
  \<^verbatim>\<open>isServiceDue\<close>. \<open>today\<close> is the current time value, in milliseconds since the
  epoch (an integer of at most 8.64e15 in size), \<open>currentMileage\<close> the text of the
  screen's mileage input.
\<close>

definition isServiceDue :: "'a next_service_scheme \<Rightarrow> int \<Rightarrow> string \<Rightarrow> bool" where
  "isServiceDue service today currentMileage =
     (case next_service_date service of
        Some nextServiceDate \<Rightarrow>
          js_le (js_ceil (js_div (js_sub (getTime nextServiceDate) (Fin (of_int today)))
                                 (Fin (1000 * 60 * 60 * 24))))
                (Fin 30)
      | None \<Rightarrow>
          (case next_service_mileage service of
             Some nsm \<Rightarrow>
               if num_truthy nsm \<and> str_truthy currentMileage
               then js_ge (parseFloat currentMileage) (js_sub nsm (Fin 1000))
               else False
           | None \<Rightarrow> False))"

text \<open>
  The object \<^verbatim>\<open>serviceData\<close> spreads \<^verbatim>\<open>nextService\<close> into the four columns it always
  sets; a row of \<^verbatim>\<open>service_records\<close> has its \<^verbatim>\<open>id\<close> besides, here \<open>row_id\<close>. An absent property is
  \<open>None\<close>, as is a null column.
\<close>

record service_data = next_service +
  user_id :: string
  service_type :: string
  service_date :: date
  current_mileage :: jsnum

record service_record = service_data +
  row_id :: nat

text \<open>
  The store. A failed call leaves the table as it was. \<open>select_fails\<close> and
  \<open>write_fails\<close> say, for each iteration of the saving loop (counted from 0), whether the
  store answers the lookup and the update or insert with an error; \<open>load_fails\<close> does so
  for the reload of the list.
\<close>

record store_env =
  select_fails :: "nat \<Rightarrow> bool"
  write_fails :: "nat \<Rightarrow> bool"
  load_fails :: bool

text \<open>\<^verbatim>\<open>select('id').eq('user_id', uid).eq('service_type', t).limit(1)\<close>: the data, or null on error.\<close>

definition select_ids :: "store_env \<Rightarrow> nat \<Rightarrow> string \<Rightarrow> string \<Rightarrow> service_record list \<Rightarrow> nat list option" where
  "select_ids env i uid t db =
     (if select_fails env i then None
      else Some (take 1 (map row_id (filter (\<lambda>r. user_id r = uid \<and> service_type r = t) db))))"

text \<open>\<^verbatim>\<open>update(serviceData).eq('id', x)\<close> sets the columns that \<^verbatim>\<open>serviceData\<close> has.\<close>

definition apply_update :: "service_data \<Rightarrow> service_record \<Rightarrow> service_record" where
  "apply_update sd r =
     r\<lparr> user_id := user_id sd, service_type := service_type sd,
        service_date := service_date sd, current_mileage := current_mileage sd,
        next_service_date :=
          (case next_service_date sd of Some v \<Rightarrow> Some v | None \<Rightarrow> next_service_date r),
        next_service_mileage :=
          (case next_service_mileage sd of Some v \<Rightarrow> Some v | None \<Rightarrow> next_service_mileage r) \<rparr>"

definition update_by_id :: "nat \<Rightarrow> service_data \<Rightarrow> service_record list \<Rightarrow> service_record list" where
  "update_by_id x sd db = map (\<lambda>r. if row_id r = x then apply_update sd r else r) db"

definition fresh_id :: "service_record list \<Rightarrow> nat" where
  "fresh_id db = Suc (foldr max (map row_id db) 0)"

definition insert_row :: "service_data \<Rightarrow> service_record list \<Rightarrow> service_record list" where
  "insert_row sd db =
     db @ [\<lparr> next_service_date = next_service_date sd,
             next_service_mileage = next_service_mileage sd,
             user_id = user_id sd, service_type = service_type sd,
             service_date = service_date sd, current_mileage = current_mileage sd,
             row_id = fresh_id db \<rparr>]"

text \<open>
  The loop of \<^verbatim>\<open>handleSave\<close> over the selected services, from iteration \<open>i\<close> on,
  in a runtime whose zone is \<open>z\<close>. The result is the error thrown, if any, and the table
  as the loop left it.
\<close>

fun save_each ::
  "zone \<Rightarrow> store_env \<Rightarrow> nat \<Rightarrow> string \<Rightarrow> jsnum \<Rightarrow> date \<Rightarrow> string list \<Rightarrow> service_record list
     \<Rightarrow> js_error option \<times> service_record list" where
  "save_each z env i uid mileage currentDate [] db = (None, db)"
| "save_each z env i uid mileage currentDate (serviceType # rest) db =
     (case calculateNextService z serviceType mileage currentDate of
        Inl e \<Rightarrow> (Some e, db)
      | Inr nextService \<Rightarrow>
          let existingService = select_ids env i uid serviceType db;
              serviceData =
                \<lparr> next_service_date = next_service_date nextService,
                  next_service_mileage = next_service_mileage nextService,
                  user_id = uid, service_type = serviceType,
                  service_date = currentDate, current_mileage = mileage \<rparr>
          in (case existingService of
               Some (x # _) \<Rightarrow>
                 if write_fails env i then (Some StoreError, db)
                 else save_each z env (Suc i) uid mileage currentDate rest
                        (update_by_id x serviceData db)
             | _ \<Rightarrow>
                 if write_fails env i then (Some StoreError, db)
                 else save_each z env (Suc i) uid mileage currentDate rest
                        (insert_row serviceData db)))"

record services_screen =
  currentMileage :: string
  selectedServices :: "string list"
  upcomingServices :: "service_record list"
  loading :: bool
  shown :: "notif list"

definition toggleService :: "string \<Rightarrow> services_screen \<Rightarrow> services_screen" where
  "toggleService serviceKey st =
     st\<lparr> selectedServices :=
            (if serviceKey \<in> set (selectedServices st)
             then filter (\<lambda>s. s \<noteq> serviceKey) (selectedServices st)
             else selectedServices st @ [serviceKey]) \<rparr>"

text \<open>\<^verbatim>\<open>loadUpcomingServices\<close>: the user's rows, newest first.\<close>

definition loadUpcomingServices ::
  "string option \<Rightarrow> store_env \<Rightarrow> service_record list \<Rightarrow> services_screen \<Rightarrow> services_screen" where
  "loadUpcomingServices user env db st =
     (case user of
        None \<Rightarrow> st
      | Some uid \<Rightarrow>
          if load_fails env then
            st\<lparr> shown := shown st @ [(error, ''Error al cargar los servicios'')] \<rparr>
          else st\<lparr> upcomingServices := rev (filter (\<lambda>r. user_id r = uid) db) \<rparr>)"

text \<open>
  \<^verbatim>\<open>handleSave\<close> of the services screen; \<open>today\<close> is the current day of UTC, which
  \<^verbatim>\<open>new Date().toISOString()\<close> prints.
\<close>

definition services_handleSave ::
  "zone \<Rightarrow> string option \<Rightarrow> date \<Rightarrow> store_env \<Rightarrow> services_screen \<times> service_record list
     \<Rightarrow> services_screen \<times> service_record list" where
  "services_handleSave z user today env w =
     (let st = fst w; db = snd w
      in case user of
           None \<Rightarrow>
             (st\<lparr> shown := shown st @
                [(error, ''Por favor completa el kilometraje y selecciona al menos un servicio'')] \<rparr>, db)
         | Some uid \<Rightarrow>
             if \<not> str_truthy (currentMileage st) \<or> length (selectedServices st) = 0 then
               (st\<lparr> shown := shown st @
                  [(error, ''Por favor completa el kilometraje y selecciona al menos un servicio'')] \<rparr>, db)
             else
               let mileage = parseFloat (currentMileage st);
                   r = save_each z env 0 uid mileage today (selectedServices st) db
               in (case fst r of
                    Some e \<Rightarrow>
                      (st\<lparr> shown := shown st @ [(error, ''No se pudieron guardar los servicios'')],
                           loading := False \<rparr>, snd r)
                  | None \<Rightarrow>
                      (loadUpcomingServices user env (snd r)
                         (st\<lparr> shown := shown st @ [(success, ''Servicios registrados correctamente'')],
                              currentMileage := [], selectedServices := [], loading := False \<rparr>),
                       snd r)))"

section \<open>Trips screen\<close>

record trip_formData =
  origin :: string
  destination :: string
  desiredPricePerKm :: string
  tripPrice :: string

datatype profitability = rentable | poco_rentable | no_rentable

record route =
  distance :: jsnum

text \<open>
  What the directions request comes back with: it throws, or it answers with the
  \<^verbatim>\<open>routes\<close> property of its data (\<open>None\<close> when the property is missing).
\<close>

datatype directions_reply = request_failed | reply "route list option"

record analysis =
  distance :: jsnum
  actualPricePerKm :: jsnum
  profitability :: profitability
  difference :: jsnum

text \<open>The classification at the end of \<^verbatim>\<open>calculateProfitability\<close>.\<close>

definition classify :: "jsnum \<Rightarrow> profitability" where
  "classify difference' =
     (if js_ge difference' (Fin 10) then rentable
      else if js_ge difference' (Fin (- 10)) then poco_rentable
      else no_rentable)"

text \<open>\<open>requests\<close> counts the directions requests sent.\<close>

record trips_screen =
  formData :: trip_formData
  originCoords :: "(jsnum \<times> jsnum) option"
  destinationCoords :: "(jsnum \<times> jsnum) option"
  analysis :: "analysis option"
  loading :: bool
  shown :: "notif list"
  requests :: nat

definition calculateProfitability :: "directions_reply \<Rightarrow> trips_screen \<Rightarrow> trips_screen" where
  "calculateProfitability response st =
     (if originCoords st = None \<or> destinationCoords st = None then
        st\<lparr> shown := shown st @
             [(error, ''Por favor selecciona origen y destino validos de las sugerencias'')] \<rparr>
      else if \<not> str_truthy (desiredPricePerKm (formData st)) \<or> \<not> str_truthy (tripPrice (formData st)) then
        st\<lparr> shown := shown st @
             [(error, ''Por favor completa el precio deseado por km y el precio del viaje'')] \<rparr>
      else
        let tripPrice' = parseFloat (tripPrice (formData st));
            desiredPricePerKm' = parseFloat (desiredPricePerKm (formData st))
        in if isNaN tripPrice' \<or> js_le tripPrice' (Fin 0)
              \<or> isNaN desiredPricePerKm' \<or> js_le desiredPricePerKm' (Fin 0) then
             st\<lparr> shown := shown st @ [(error, ''Por favor ingresa precios validos'')] \<rparr>
           else
             (case response of
                request_failed \<Rightarrow>
                  st\<lparr> requests := Suc (requests st),
                       shown := shown st @
                         [(error, ''Error al calcular la ruta. Verifica tu conexion a internet'')],
                       loading := False \<rparr>
              | reply routes \<Rightarrow>
                  (case routes of
                     Some (route # _) \<Rightarrow>
                       let distanceKm = js_div (route.distance route) (Fin 1000);
                           actualPricePerKm' = js_div tripPrice' distanceKm;
                           difference' =
                             js_mul (js_div (js_sub actualPricePerKm' desiredPricePerKm')
                                            desiredPricePerKm') (Fin 100)
                       in st\<lparr> requests := Suc (requests st),
                               analysis := Some \<lparr> distance = distanceKm,
                                                  actualPricePerKm = actualPricePerKm',
                                                  profitability = classify difference',
                                                  difference = difference' \<rparr>,
                               loading := False \<rparr>
                   | _ \<Rightarrow>
                       st\<lparr> requests := Suc (requests st),
                            shown := shown st @
                              [(error, ''No se pudo calcular la ruta entre los puntos seleccionados'')],
                            loading := False \<rparr>)))"

section \<open>Example inputs\<close>




text \<open>
  A trips screen on which origin and destination have been picked from the suggestions and
  the two prices typed in, and a directions answer with one route of the given length in
  metres.
\<close>

definition trip_ready :: "string \<Rightarrow> string \<Rightarrow> trips_screen" where
  "trip_ready desired price =
     \<lparr> trips_screen.formData = \<lparr> origin = ''Obelisco'', destination = ''Aeroparque'',
          desiredPricePerKm = desired, tripPrice = price \<rparr>,
       originCoords = Some (binary64 (- 5838 / 100), binary64 (- 3460 / 100)),
       destinationCoords = Some (binary64 (- 5841 / 100), binary64 (- 3456 / 100)),
       analysis = None, trips_screen.loading = False, trips_screen.shown = [], requests = 0 \<rparr>"

definition one_route :: "rat \<Rightarrow> directions_reply" where
  "one_route metres = reply (Some [\<lparr> route.distance = binary64 metres \<rparr>])"

text \<open>
  An earnings screen on which 100 earned, 2.5 trips, 50 km and 4 hours have been typed, and
  a day on which records are saved.
\<close>

definition fractional_trips_screen :: earnings_screen where
  "fractional_trips_screen =
     handleInputChange ''hoursWorked'' ''4''
       (handleInputChange ''kilometersDriver'' ''50''
         (handleInputChange ''tripsCompleted'' ''2.5''
           (handleInputChange ''totalEarnings'' ''100'' initial_earnings_screen)))"

definition example_day :: date where
  "example_day = \<lparr> year = 2024, month = 5, day = 17 \<rparr>"

text \<open>Two zones without daylight saving: UTC, and Argentina's, three hours behind it.\<close>

definition utc_zone :: zone where
  "utc_zone = fixed_zone 0"

definition argentina :: zone where
  "argentina = fixed_zone (- 180)"

text \<open>
  The invariant of the table \<^verbatim>\<open>service_records\<close>: ids are unique, and no two rows have
  the same user and service type.
\<close>

definition unique_rows :: "service_record list \<Rightarrow> bool" where
  "unique_rows db =
     (distinct (map row_id db) \<and> distinct (map (\<lambda>r. (user_id r, service_type r)) db))"

text \<open>
  A store that answers every call, one whose lookup fails in the first iteration, and one
  whose write fails in the second; a services screen with a mileage typed and services
  ticked; and the table after one oil change has been saved at 50000.
\<close>

definition reliable_store :: store_env where
  "reliable_store = \<lparr> select_fails = (\<lambda>i. False), write_fails = (\<lambda>i. False), load_fails = False \<rparr>"

definition lookup_down :: store_env where
  "lookup_down = \<lparr> select_fails = (\<lambda>i. i = 0), write_fails = (\<lambda>i. False), load_fails = False \<rparr>"


definition services_ready :: "string \<Rightarrow> string list \<Rightarrow> services_screen" where
  "services_ready mileage selected =
     \<lparr> currentMileage = mileage, selectedServices = selected, upcomingServices = [],
       services_screen.loading = False, services_screen.shown = [] \<rparr>"

definition one_oil_change :: "service_record list" where
  "one_oil_change =
     [\<lparr> next_service_date = None, next_service_mileage = Some (Fin 60000),
        user_id = ''u1'', service_type = ''oil_change'', service_date = example_day,
        current_mileage = Fin 50000, row_id = 1 \<rparr>]"

text \<open>The row that saving an oil change at the mileage -10000 stores.\<close>

definition zero_threshold_row :: service_record where
  "zero_threshold_row =
     \<lparr> next_service_date = None, next_service_mileage = Some (Fin 0),
       user_id = ''u1'', service_type = ''oil_change'', service_date = example_day,
       current_mileage = Fin (- 10000), row_id = 1 \<rparr>"

section \<open>Evaluation of the built-ins on literals\<close>



lemma parse_prices:
  "parseFloat ''750'' = Fin 750" "parseFloat ''5000'' = Fin 5000"
  "parseFloat ''100'' = Fin 100" "parseFloat ''1100'' = Fin 1100"
  "parseFloat ''900'' = Fin 900" "parseFloat ''0'' = Fin 0" "parseFloat ''abc'' = NaN"
  by code_simp+

lemma parse_mileages:
  "parseFloat ''50000'' = Fin 50000" "parseFloat ''59200'' = Fin 59200"
  "parseFloat ''58000'' = Fin 58000" "parseFloat ''60000'' = Fin 60000"
  "parseFloat ''-10000'' = Fin (- 10000)" "parseFloat ''500'' = Fin 500"
  by code_simp+

lemma parse_trips: "parseInt ''2.5'' = Fin 2" "parseFloat ''2.5'' = Fin (5 / 2)"
  by code_simp+

lemma binary64_values:
  "binary64 60000 = Fin 60000" "binary64 70000 = Fin 70000" "binary64 59000 = Fin 59000"
  "binary64 0 = Fin 0" "binary64 (- 1000) = Fin (- 1000)" "binary64 50 = Fin 50"
  by code_simp+

section \<open>The earnings calculator\<close>






text \<open>
  The earnings calculator guards each of its six divisions: a rate whose denominator is not
  positive is 0.
\<close>

lemma earnings_rates_guarded:
  "\<not> js_gt (field_value (kilometersDriver fd)) (Fin 0) \<Longrightarrow>
     grossPerKm (calculateValues fd) = Fin 0 \<and> netPerKm (calculateValues fd) = Fin 0"
  "\<not> js_gt (field_value (hoursWorked fd)) (Fin 0) \<Longrightarrow>
     grossPerHour (calculateValues fd) = Fin 0 \<and> netPerHour (calculateValues fd) = Fin 0"
  "\<not> js_gt (field_value (tripsCompleted fd)) (Fin 0) \<Longrightarrow>
     grossPerTrip (calculateValues fd) = Fin 0 \<and> netPerTrip (calculateValues fd) = Fin 0"
  by (simp_all add: calculateValues_def Let_def)

section \<open>The trip-profitability calculator\<close>

lemma classify_cases:
  "js_ge d (Fin 10) \<Longrightarrow> classify d = rentable"
  "js_ge d (Fin (- 10)) \<Longrightarrow> js_lt d (Fin 10) \<Longrightarrow> classify d = poco_rentable"
  "js_lt d (Fin (- 10)) \<Longrightarrow> classify d = no_rentable"
  by (cases d; simp add: classify_def js_ge_def js_le_def)+

lemma classify_converse:
  assumes "d \<noteq> NaN"
  shows "(classify d = rentable) = js_ge d (Fin 10)"
    and "(classify d = poco_rentable) = (js_ge d (Fin (- 10)) \<and> js_lt d (Fin 10))"
    and "(classify d = no_rentable) = js_lt d (Fin (- 10))"
  using assms by (cases d; auto simp add: classify_def js_ge_def js_le_def)+

lemma calc_quiet:
  "trips_screen.shown (calculateProfitability response st) = trips_screen.shown st \<Longrightarrow>
   \<exists>a. analysis (calculateProfitability response st) = Some a
       \<and> profitability a = classify (difference a)"
  by (auto simp add: calculateProfitability_def Let_def split: if_splits directions_reply.splits option.splits list.splits)

text \<open>
  C2. The tier depends on the percent difference \<open>d\<close> alone: \<open>d \<ge> 10\<close> gives
  \<open>rentable\<close>, \<open>-10 \<le> d < 10\<close> gives \<open>poco_rentable\<close> and \<open>d < -10\<close> gives
  \<open>no_rentable\<close>; for a \<open>d\<close> that is a number the three cases are exactly the three
  tiers. Whenever the calculator reports no error, the analysis it stores carries the tier of
  the difference it stores.
\<close>

theorem classify_by_difference:
  "(js_ge d (Fin 10) \<longrightarrow> classify d = rentable)
   \<and> (js_ge d (Fin (- 10)) \<and> js_lt d (Fin 10) \<longrightarrow> classify d = poco_rentable)
   \<and> (js_lt d (Fin (- 10)) \<longrightarrow> classify d = no_rentable)
   \<and> (d \<noteq> NaN \<longrightarrow>
        (classify d = rentable) = js_ge d (Fin 10)
        \<and> (classify d = poco_rentable) = (js_ge d (Fin (- 10)) \<and> js_lt d (Fin 10))
        \<and> (classify d = no_rentable) = js_lt d (Fin (- 10)))
   \<and> (trips_screen.shown (calculateProfitability response st) = trips_screen.shown st \<longrightarrow>
        (\<exists>a. analysis (calculateProfitability response st) = Some a
           \<and> profitability a = classify (difference a)))"
  using classify_cases [of d] classify_converse [of d] calc_quiet [of response st] by blast

lemma example_trip:
  "trips_screen.shown (calculateProfitability (one_route 5880) (trip_ready ''750'' ''5000''))
     = trips_screen.shown (trip_ready ''750'' ''5000'')"
  "map_option profitability
     (analysis (calculateProfitability (one_route 5880) (trip_ready ''750'' ''5000'')))
     = Some rentable"
  by code_simp+

theorem classify_by_difference_witness:
  "js_ge (Fin 15) (Fin 10) \<and> classify (Fin 15) = rentable
   \<and> js_ge (Fin 0) (Fin (- 10)) \<and> js_lt (Fin 0) (Fin 10) \<and> classify (Fin 0) = poco_rentable
   \<and> js_lt (Fin (- 20)) (Fin (- 10)) \<and> classify (Fin (- 20)) = no_rentable
   \<and> trips_screen.shown (calculateProfitability (one_route 5880) (trip_ready ''750'' ''5000''))
       = trips_screen.shown (trip_ready ''750'' ''5000'')
   \<and> (\<exists>a. analysis (calculateProfitability (one_route 5880) (trip_ready ''750'' ''5000'')) = Some a
         \<and> profitability a = classify (difference a))"
proof -
  have quiet: "trips_screen.shown (calculateProfitability (one_route 5880) (trip_ready ''750'' ''5000''))
       = trips_screen.shown (trip_ready ''750'' ''5000'')"
    by (rule example_trip)
  have cmp: "js_ge (Fin 15) (Fin 10)" "js_ge (Fin 0) (Fin (- 10))" "js_lt (Fin 0) (Fin 10)"
    "js_lt (Fin (- 20)) (Fin (- 10))"
    by (simp_all add: js_ge_def js_le_def)
  show ?thesis
    using classify_by_difference [of "Fin 15" "one_route 5880" "trip_ready ''750'' ''5000''"]
      classify_by_difference [of "Fin 0" "one_route 5880" "trip_ready ''750'' ''5000''"]
      classify_by_difference [of "Fin (- 20)" "one_route 5880" "trip_ready ''750'' ''5000''"]
      quiet cmp
    by blast
qed

lemma trip_at_plus_ten:
  "analysis (calculateProfitability (one_route 10000) (trip_ready ''100'' ''1100''))
     = Some \<lparr> analysis.distance = Fin 10, actualPricePerKm = Fin 110,
              profitability = rentable, difference = Fin 10 \<rparr>"
  by code_simp

lemma trip_at_minus_ten:
  "analysis (calculateProfitability (one_route 10000) (trip_ready ''100'' ''900''))
     = Some \<lparr> analysis.distance = Fin 10, actualPricePerKm = Fin 90,
              profitability = poco_rentable, difference = Fin (- 10) \<rparr>"
  by code_simp

text \<open>
  C3. A difference of exactly \<open>-10\<close> is \<open>poco_rentable\<close>, but one of exactly \<open>+10\<close> is
  \<open>rentable\<close>, although the branch is commented as more than 10 per cent above the
  desired price and the marginal one as between -10 and +10 per cent. A trip of 10 km at a
  desired 100 per km shows both, priced at 1100 and at 900.
\<close>

theorem boundary_closed_upward:
  "classify (Fin 10) = rentable \<and> classify (Fin (- 10)) = poco_rentable
   \<and> analysis (calculateProfitability (one_route 10000) (trip_ready ''100'' ''1100''))
       = Some \<lparr> analysis.distance = Fin 10, actualPricePerKm = Fin 110,
                profitability = rentable, difference = Fin 10 \<rparr>
   \<and> analysis (calculateProfitability (one_route 10000) (trip_ready ''100'' ''900''))
       = Some \<lparr> analysis.distance = Fin 10, actualPricePerKm = Fin 90,
                profitability = poco_rentable, difference = Fin (- 10) \<rparr>"
  by (simp add: trip_at_plus_ten trip_at_minus_ten) (simp add: classify_def js_ge_def js_le_def)

theorem boundary_closed_upward_witness:
  "str_truthy ''100'' \<and> str_truthy ''1100'' \<and> str_truthy ''900''
   \<and> \<not> isNaN (parseFloat ''100'') \<and> \<not> js_le (parseFloat ''100'') (Fin 0)
   \<and> \<not> isNaN (parseFloat ''1100'') \<and> \<not> js_le (parseFloat ''1100'') (Fin 0)
   \<and> \<not> isNaN (parseFloat ''900'') \<and> \<not> js_le (parseFloat ''900'') (Fin 0)
   \<and> (\<exists>a. analysis (calculateProfitability (one_route 10000) (trip_ready ''100'' ''1100'')) = Some a
         \<and> difference a = Fin 10 \<and> profitability a = rentable)
   \<and> (\<exists>a. analysis (calculateProfitability (one_route 10000) (trip_ready ''100'' ''900'')) = Some a
         \<and> difference a = Fin (- 10) \<and> profitability a = poco_rentable)"
  using boundary_closed_upward
  by (simp add: parse_prices str_truthy_def isNaN_def js_le_def)

text \<open>
  C4. The trip calculator divides the price by the route's length with no guard: a route of
  length 0 gives an infinite price per kilometre (and an infinite difference, classified
  \<open>rentable\<close>), where the specification asks for the rate 0.
\<close>

theorem zero_length_route_rate_infinite:
  "analysis (calculateProfitability (one_route 0) (trip_ready ''750'' ''5000''))
     = Some \<lparr> analysis.distance = Fin 0, actualPricePerKm = PosInf,
              profitability = rentable, difference = PosInf \<rparr>"
  by code_simp

theorem zero_length_route_rate_infinite_witness:
  "str_truthy ''750'' \<and> str_truthy ''5000''
   \<and> \<not> isNaN (parseFloat ''750'') \<and> \<not> js_le (parseFloat ''750'') (Fin 0)
   \<and> \<not> isNaN (parseFloat ''5000'') \<and> \<not> js_le (parseFloat ''5000'') (Fin 0)
   \<and> (\<exists>a. analysis (calculateProfitability (one_route 0) (trip_ready ''750'' ''5000'')) = Some a
         \<and> analysis.distance a = Fin 0 \<and> \<not> isFinite (actualPricePerKm a))"
  using zero_length_route_rate_infinite
  by (simp add: parse_prices str_truthy_def isNaN_def js_le_def isFinite_def)

section \<open>Validation of a trip, and the saved earnings row\<close>

lemma calc_validation:
  assumes "originCoords st = None \<or> destinationCoords st = None
      \<or> desiredPricePerKm (trips_screen.formData st) = [] \<or> tripPrice (trips_screen.formData st) = []
      \<or> parseFloat (tripPrice (trips_screen.formData st)) = NaN
      \<or> js_le (parseFloat (tripPrice (trips_screen.formData st))) (Fin 0)
      \<or> parseFloat (desiredPricePerKm (trips_screen.formData st)) = NaN
      \<or> js_le (parseFloat (desiredPricePerKm (trips_screen.formData st))) (Fin 0)"
  shows "\<exists>msg. calculateProfitability response st
           = st\<lparr> trips_screen.shown := trips_screen.shown st @ [(error, msg)] \<rparr>"
  using assms by (auto simp add: calculateProfitability_def Let_def str_truthy_def isNaN_def)

lemma calc_lookup_failure:
  assumes "\<not> (originCoords st = None \<or> destinationCoords st = None
      \<or> desiredPricePerKm (trips_screen.formData st) = [] \<or> tripPrice (trips_screen.formData st) = []
      \<or> parseFloat (tripPrice (trips_screen.formData st)) = NaN
      \<or> js_le (parseFloat (tripPrice (trips_screen.formData st))) (Fin 0)
      \<or> parseFloat (desiredPricePerKm (trips_screen.formData st)) = NaN
      \<or> js_le (parseFloat (desiredPricePerKm (trips_screen.formData st))) (Fin 0))"
    and "response = request_failed \<or> response = reply None \<or> response = reply (Some [])"
  shows "\<exists>msg. calculateProfitability response st
           = st\<lparr> requests := Suc (requests st),
                 trips_screen.shown := trips_screen.shown st @ [(error, msg)],
                 trips_screen.loading := False \<rparr>"
  using assms by (auto simp add: calculateProfitability_def Let_def str_truthy_def isNaN_def)

text \<open>
  C9. When a coordinate pair is missing, or a price is blank, unreadable by
  \<^verbatim>\<open>parseFloat\<close> or not positive, the calculation only records one error
  notification: no request is sent and the analysis is untouched, whatever the directions
  service would answer. When the inputs pass and the request fails or comes back with no
  route, one request has been sent, one error notification is recorded, loading is off and
  the analysis is untouched.
\<close>

theorem validation_and_lookup_failure:
  "(originCoords st = None \<or> destinationCoords st = None
      \<or> desiredPricePerKm (trips_screen.formData st) = [] \<or> tripPrice (trips_screen.formData st) = []
      \<or> parseFloat (tripPrice (trips_screen.formData st)) = NaN
      \<or> js_le (parseFloat (tripPrice (trips_screen.formData st))) (Fin 0)
      \<or> parseFloat (desiredPricePerKm (trips_screen.formData st)) = NaN
      \<or> js_le (parseFloat (desiredPricePerKm (trips_screen.formData st))) (Fin 0)
    \<longrightarrow> (\<exists>msg. calculateProfitability response st
                 = st\<lparr> trips_screen.shown := trips_screen.shown st @ [(error, msg)] \<rparr>)
        \<and> requests (calculateProfitability response st) = requests st
        \<and> analysis (calculateProfitability response st) = analysis st)
   \<and> (\<not> (originCoords st = None \<or> destinationCoords st = None
      \<or> desiredPricePerKm (trips_screen.formData st) = [] \<or> tripPrice (trips_screen.formData st) = []
      \<or> parseFloat (tripPrice (trips_screen.formData st)) = NaN
      \<or> js_le (parseFloat (tripPrice (trips_screen.formData st))) (Fin 0)
      \<or> parseFloat (desiredPricePerKm (trips_screen.formData st)) = NaN
      \<or> js_le (parseFloat (desiredPricePerKm (trips_screen.formData st))) (Fin 0))
      \<and> (response = request_failed \<or> response = reply None \<or> response = reply (Some []))
    \<longrightarrow> (\<exists>msg. calculateProfitability response st
                 = st\<lparr> requests := Suc (requests st),
                       trips_screen.shown := trips_screen.shown st @ [(error, msg)],
                       trips_screen.loading := False \<rparr>)
        \<and> requests (calculateProfitability response st) = Suc (requests st)
        \<and> analysis (calculateProfitability response st) = analysis st)"
proof (intro conjI impI)
  assume a: "originCoords st = None \<or> destinationCoords st = None
      \<or> desiredPricePerKm (trips_screen.formData st) = [] \<or> tripPrice (trips_screen.formData st) = []
      \<or> parseFloat (tripPrice (trips_screen.formData st)) = NaN
      \<or> js_le (parseFloat (tripPrice (trips_screen.formData st))) (Fin 0)
      \<or> parseFloat (desiredPricePerKm (trips_screen.formData st)) = NaN
      \<or> js_le (parseFloat (desiredPricePerKm (trips_screen.formData st))) (Fin 0)"
  from calc_validation [OF a, of response] obtain msg where
    e: "calculateProfitability response st
           = st\<lparr> trips_screen.shown := trips_screen.shown st @ [(error, msg)] \<rparr>" by blast
  show "\<exists>msg. calculateProfitability response st
           = st\<lparr> trips_screen.shown := trips_screen.shown st @ [(error, msg)] \<rparr>"
    using e by blast
  show "requests (calculateProfitability response st) = requests st" by (simp add: e)
  show "analysis (calculateProfitability response st) = analysis st" by (simp add: e)
next
  assume b: "\<not> (originCoords st = None \<or> destinationCoords st = None
      \<or> desiredPricePerKm (trips_screen.formData st) = [] \<or> tripPrice (trips_screen.formData st) = []
      \<or> parseFloat (tripPrice (trips_screen.formData st)) = NaN
      \<or> js_le (parseFloat (tripPrice (trips_screen.formData st))) (Fin 0)
      \<or> parseFloat (desiredPricePerKm (trips_screen.formData st)) = NaN
      \<or> js_le (parseFloat (desiredPricePerKm (trips_screen.formData st))) (Fin 0))
      \<and> (response = request_failed \<or> response = reply None \<or> response = reply (Some []))"
  from calc_lookup_failure [of st response] b obtain msg where
    e: "calculateProfitability response st
           = st\<lparr> requests := Suc (requests st),
                 trips_screen.shown := trips_screen.shown st @ [(error, msg)],
                 trips_screen.loading := False \<rparr>" by blast
  show "\<exists>msg. calculateProfitability response st
           = st\<lparr> requests := Suc (requests st),
                 trips_screen.shown := trips_screen.shown st @ [(error, msg)],
                 trips_screen.loading := False \<rparr>"
    using e by blast
  show "requests (calculateProfitability response st) = Suc (requests st)" by (simp add: e)
  show "analysis (calculateProfitability response st) = analysis st" by (simp add: e)
qed

lemma trip_ready_fields:
  "originCoords (trip_ready d p) \<noteq> None" "destinationCoords (trip_ready d p) \<noteq> None"
  "desiredPricePerKm (trips_screen.formData (trip_ready d p)) = d"
  "tripPrice (trips_screen.formData (trip_ready d p)) = p"
  "requests (trip_ready d p) = 0" "analysis (trip_ready d p) = None"
  by (simp_all add: trip_ready_def)

theorem validation_and_lookup_failure_witness:
  "js_le (parseFloat ''0'') (Fin 0)
   \<and> requests (calculateProfitability (one_route 5880) (trip_ready ''750'' ''0'')) = 0
   \<and> analysis (calculateProfitability (one_route 5880) (trip_ready ''750'' ''0'')) = None
   \<and> parseFloat ''abc'' = NaN
   \<and> requests (calculateProfitability (one_route 5880) (trip_ready ''abc'' ''5000'')) = 0
   \<and> analysis (calculateProfitability (one_route 5880) (trip_ready ''abc'' ''5000'')) = None
   \<and> originCoords ((trip_ready ''750'' ''5000'')\<lparr> originCoords := None \<rparr>) = None
   \<and> requests (calculateProfitability (one_route 5880)
         ((trip_ready ''750'' ''5000'')\<lparr> originCoords := None \<rparr>)) = 0
   \<and> analysis (calculateProfitability (one_route 5880)
         ((trip_ready ''750'' ''5000'')\<lparr> originCoords := None \<rparr>)) = None
   \<and> requests (calculateProfitability request_failed (trip_ready ''750'' ''5000'')) = 1
   \<and> analysis (calculateProfitability request_failed (trip_ready ''750'' ''5000'')) = None
   \<and> requests (calculateProfitability (reply (Some [])) (trip_ready ''750'' ''5000'')) = 1
   \<and> analysis (calculateProfitability (reply (Some [])) (trip_ready ''750'' ''5000'')) = None"
proof -
  have p: "js_le (parseFloat ''0'') (Fin 0)" "parseFloat ''abc'' = NaN"
    "parseFloat ''750'' \<noteq> NaN" "parseFloat ''5000'' \<noteq> NaN"
    "\<not> js_le (parseFloat ''750'') (Fin 0)" "\<not> js_le (parseFloat ''5000'') (Fin 0)"
    by (simp_all add: parse_prices js_le_def)
  show ?thesis
    using validation_and_lookup_failure [of "trip_ready ''750'' ''0''" "one_route 5880"]
      validation_and_lookup_failure [of "trip_ready ''abc'' ''5000''" "one_route 5880"]
      validation_and_lookup_failure
        [of "(trip_ready ''750'' ''5000'')\<lparr> originCoords := None \<rparr>" "one_route 5880"]
      validation_and_lookup_failure [of "trip_ready ''750'' ''5000''" request_failed]
      validation_and_lookup_failure [of "trip_ready ''750'' ''5000''" "reply (Some [])"]
    by (simp add: p trip_ready_fields)
qed

lemma fractional_trips_fields:
  "earnings_screen.formData fractional_trips_screen =
     empty_form\<lparr> totalEarnings := ''100'', tripsCompleted := ''2.5'',
                 kilometersDriver := ''50'', hoursWorked := ''4'' \<rparr>"
  by (simp add: fractional_trips_screen_def handleInputChange_def setFormData_def
      initial_earnings_screen_def Let_def)

lemma fractional_trips_calculations:
  "calculations fractional_trips_screen =
     \<lparr> grossEarnings = Fin 100, grossPerKm = Fin 2, grossPerHour = Fin 25,
       grossPerTrip = Fin 40, totalExpenses = Fin 0, netEarnings = Fin 100,
       netPerKm = Fin 2, netPerHour = Fin 25, netPerTrip = Fin 40 \<rparr>"
  by code_simp

text \<open>
  C7. The saved row takes \<open>trips_completed\<close> from \<^verbatim>\<open>parseInt\<close> and the per-trip rates
  from the calculator, which divides by \<^verbatim>\<open>parseFloat\<close> of the same field. With 2.5 typed
  as trips and 100 earned, the row holds 2 trips and 40 per trip, while 100 over 2 is 50.
\<close>

theorem saved_rate_disagrees_with_saved_trips:
  "\<exists>row. snd (earnings_handleSave (Some ''u1'') example_day False (fractional_trips_screen, []))
          = [row]
     \<and> trips_completed row = Fin 2 \<and> gross_earnings row = Fin 100 \<and> net_earnings row = Fin 100
     \<and> gross_per_trip row = Fin 40 \<and> net_per_trip row = Fin 40
     \<and> js_div (gross_earnings row) (trips_completed row) = Fin 50
     \<and> js_div (net_earnings row) (trips_completed row) = Fin 50"
  by (simp add: earnings_handleSave_def Let_def fractional_trips_fields empty_form_def
      str_truthy_def earningsData_def fractional_trips_calculations parse_trips binary64_values)

text \<open>
  When the two built-ins read the trips field alike, the saved per-trip rates are the saved
  totals over the saved trips.
\<close>

lemma saved_rates_when_trips_integral:
  assumes "calculations st = calculateValues (earnings_screen.formData st)"
    and "parseInt (tripsCompleted (earnings_screen.formData st))
           = parseFloat (tripsCompleted (earnings_screen.formData st))"
    and "js_gt (parseFloat (tripsCompleted (earnings_screen.formData st))) (Fin 0)"
  shows "gross_per_trip (earningsData uid today st)
           = js_div (gross_earnings (earningsData uid today st))
                    (trips_completed (earningsData uid today st))
       \<and> net_per_trip (earningsData uid today st)
           = js_div (net_earnings (earningsData uid today st))
                    (trips_completed (earningsData uid today st))"
proof -
  have "field_value (tripsCompleted (earnings_screen.formData st))
          = parseFloat (tripsCompleted (earnings_screen.formData st))"
    using assms(3)
    by (cases "parseFloat (tripsCompleted (earnings_screen.formData st))")
       (simp_all add: field_value_def or_zero_def num_truthy_def js_gt_def)
  then show ?thesis
    using assms by (simp add: earningsData_def calculateValues_def Let_def)
qed

section \<open>The service-due calculator\<close>

lemma SERVICE_TYPES_find:
  "List.find (\<lambda>s. key s = ''vtv'') SERVICE_TYPES = Some \<lparr> key = ''vtv'', rule = years, svc_value = 2 \<rparr>"
  "List.find (\<lambda>s. key s = ''oil_change'') SERVICE_TYPES
     = Some \<lparr> key = ''oil_change'', rule = km, svc_value = 10000 \<rparr>"
  "List.find (\<lambda>s. key s = ''timing_belt'') SERVICE_TYPES
     = Some \<lparr> key = ''timing_belt'', rule = km, svc_value = 70000 \<rparr>"
  "List.find (\<lambda>s. key s = ''brakes'') SERVICE_TYPES
     = Some \<lparr> key = ''brakes'', rule = km, svc_value = 40000 \<rparr>"
  by (simp_all add: SERVICE_TYPES_def)

lemma in_SERVICE_TYPES:
  "s \<in> set SERVICE_TYPES \<Longrightarrow>
     s = \<lparr> key = ''vtv'', rule = years, svc_value = 2 \<rparr>
   \<or> s = \<lparr> key = ''oil_change'', rule = km, svc_value = 10000 \<rparr>
   \<or> s = \<lparr> key = ''timing_belt'', rule = km, svc_value = 70000 \<rparr>
   \<or> s = \<lparr> key = ''brakes'', rule = km, svc_value = 40000 \<rparr>"
  by (simp add: SERVICE_TYPES_def)

lemma find_unknown:
  "t \<notin> key ` set SERVICE_TYPES \<Longrightarrow> List.find (\<lambda>s. key s = t) SERVICE_TYPES = None"
  by (auto simp add: find_None_iff)

lemma leap_plus_two: "leap_year y \<Longrightarrow> \<not> leap_year (y + 2)"
proof
  assume a: "leap_year y" and b: "leap_year (y + 2)"
  from a have "y mod 4 = 0" by (simp add: leap_year_def)
  moreover from b have "(y + 2) mod 4 = 0" by (simp add: leap_year_def)
  ultimately show False by presburger
qed

lemma feb29_leap: "valid_date d \<Longrightarrow> month d = 2 \<Longrightarrow> day d = 29 \<Longrightarrow> leap_year (year d)"
  by (cases "leap_year (year d)") (simp_all add: valid_date_def days_in_month_def)

lemma day_fits:
  assumes "valid_date d" "\<not> (month d = 2 \<and> day d = 29)"
  shows "day d \<le> days_in_month y (month d)"
proof (cases "month d = 2")
  case True
  with assms have "day d \<le> 28"
    by (cases "leap_year (year d)") (simp_all add: valid_date_def days_in_month_def)
  with True show ?thesis by (simp add: days_in_month_def)
next
  case False
  with assms(1) show ?thesis by (simp add: valid_date_def days_in_month_def)
qed

lemma days_in_month_le: "days_in_month y m \<le> 31"
  by (simp add: days_in_month_def)

lemma new_Date_valid: "valid_date d \<Longrightarrow> new_Date d = Some (d, 0)"
proof -
  assume v: "valid_date d"
  then have "day d \<le> 31"
    using days_in_month_le [of "year d" "month d"] by (simp add: valid_date_def)
  with v show ?thesis
    by (simp add: new_Date_def MakeDay_def valid_date_def)
qed

lemma MakeDay_two:
  assumes "valid_date d"
  shows "MakeDay (year d + 2) (month d) (day d) =
     (if month d = 2 \<and> day d = 29 then \<lparr> year = year d + 2, month = 3, day = 1 \<rparr>
      else d\<lparr> year := year d + 2 \<rparr>)"
proof (cases "month d = 2 \<and> day d = 29")
  case True
  with assms have "leap_year (year d)" by (simp add: feb29_leap)
  then have "\<not> leap_year (year d + 2)" by (rule leap_plus_two)
  with True show ?thesis
    by (simp add: MakeDay_def days_in_month_def)
next
  case False
  with assms have "day d \<le> days_in_month (year d + 2) (month d)" by (rule day_fits)
  with False show ?thesis
    by (auto simp add: MakeDay_def)
qed

text \<open>
  In a zone with one offset, at UTC or ahead of it, midnight UTC falls on the same day
  locally, and the year is advanced on that day.
\<close>

lemma setFullYear_east:
  assumes "0 \<le> k" "k < 1440"
  shows "setFullYear (fixed_zone k) (d, 0) y = (MakeDay y (month d) (day d), 0)"
    and "getFullYear (fixed_zone k) (d, 0) = year d"
  using assms
  by (simp_all add: setFullYear_def getFullYear_def LocalTime_def UTC_def shift_def
      fixed_zone_def Let_def)

lemma next_service_years:
  assumes "s \<in> set SERVICE_TYPES" "rule s = years" "valid_date serviceDate" "0 \<le> k" "k < 1440"
  shows "calculateNextService (fixed_zone k) (key s) m serviceDate =
     Inr \<lparr> next_service_date =
             Some (if month serviceDate = 2 \<and> day serviceDate = 29
                   then \<lparr> year = year serviceDate + svc_value s, month = 3, day = 1 \<rparr>
                   else serviceDate\<lparr> year := year serviceDate + svc_value s \<rparr>),
           next_service_mileage = None \<rparr>"
proof -
  from in_SERVICE_TYPES [OF assms(1)] assms(2)
  have s: "s = \<lparr> key = ''vtv'', rule = years, svc_value = 2 \<rparr>"
    by (elim disjE) simp_all
  have "calculateNextService (fixed_zone k) ''vtv'' m serviceDate =
      Inr \<lparr> next_service_date = Some (MakeDay (year serviceDate + 2) (month serviceDate) (day serviceDate)),
            next_service_mileage = None \<rparr>"
    by (simp add: calculateNextService_def SERVICE_TYPES_find new_Date_valid [OF assms(3)]
        setFullYear_east [OF assms(4,5)] toISOString_date_def)
  then show ?thesis
    by (simp add: s MakeDay_two [OF assms(3)])
qed

lemma next_service_km:
  assumes "s \<in> set SERVICE_TYPES" "rule s = km"
  shows "calculateNextService z (key s) m serviceDate =
     Inr \<lparr> next_service_date = None,
           next_service_mileage = Some (js_add m (Fin (of_int (svc_value s)))) \<rparr>"
  using in_SERVICE_TYPES [OF assms(1)] assms(2)
  by (elim disjE) (simp_all add: calculateNextService_def SERVICE_TYPES_find)

lemma next_service_unknown:
  "t \<notin> key ` set SERVICE_TYPES \<Longrightarrow>
   calculateNextService z t m serviceDate
     = Inr \<lparr> next_service_date = None, next_service_mileage = None \<rparr>"
  by (simp add: calculateNextService_def find_unknown)


text \<open>
  What holds of the next service in a zone with one offset, at UTC or ahead of it: for a
  type by years and a valid date only the date is set, the service date two years on
  (29 February becoming 1 March); for a type by kilometres only the mileage is set; for a
  type that is not listed the result is empty.
\<close>

lemma next_service_by_rule_east_of_utc:
  assumes "0 \<le> k" "k < 1440"
  shows "(\<forall>s \<in> set SERVICE_TYPES.
      (rule s = years \<longrightarrow> valid_date serviceDate \<longrightarrow>
         calculateNextService (fixed_zone k) (key s) m serviceDate =
           Inr \<lparr> next_service_date =
                   Some (if month serviceDate = 2 \<and> day serviceDate = 29
                         then \<lparr> year = year serviceDate + svc_value s, month = 3, day = 1 \<rparr>
                         else serviceDate\<lparr> year := year serviceDate + svc_value s \<rparr>),
                 next_service_mileage = None \<rparr>)
      \<and> (rule s = km \<longrightarrow>
         calculateNextService (fixed_zone k) (key s) m serviceDate =
           Inr \<lparr> next_service_date = None,
                 next_service_mileage = Some (js_add m (Fin (of_int (svc_value s)))) \<rparr>))
   \<and> (t \<notin> key ` set SERVICE_TYPES \<longrightarrow>
        calculateNextService (fixed_zone k) t m serviceDate
          = Inr \<lparr> next_service_date = None, next_service_mileage = None \<rparr>)"
  using assms next_service_years next_service_km next_service_unknown by blast

text \<open>
  C5. The next date is not a function of type, mileage and date alone, and is not always the
  service date two years on. The date is read as midnight UTC and the year advanced in local
  time: in Argentina, three hours behind UTC, a VTV on 1 March 2024 is next due on 2 March
  2026, and one on 1 March 2026 on 29 February 2028; under UTC the same calls give 1 March.
\<close>

theorem next_service_date_depends_on_zone:
  "calculateNextService argentina ''vtv'' (Fin 50000) \<lparr> year = 2024, month = 3, day = 1 \<rparr>
     = Inr \<lparr> next_service_date = Some \<lparr> year = 2026, month = 3, day = 2 \<rparr>,
             next_service_mileage = None \<rparr>
   \<and> calculateNextService argentina ''vtv'' (Fin 50000) \<lparr> year = 2026, month = 3, day = 1 \<rparr>
     = Inr \<lparr> next_service_date = Some \<lparr> year = 2028, month = 2, day = 29 \<rparr>,
             next_service_mileage = None \<rparr>
   \<and> calculateNextService utc_zone ''vtv'' (Fin 50000) \<lparr> year = 2024, month = 3, day = 1 \<rparr>
     = Inr \<lparr> next_service_date = Some \<lparr> year = 2026, month = 3, day = 1 \<rparr>,
             next_service_mileage = None \<rparr>
   \<and> calculateNextService utc_zone ''vtv'' (Fin 50000) \<lparr> year = 2026, month = 3, day = 1 \<rparr>
     = Inr \<lparr> next_service_date = Some \<lparr> year = 2028, month = 3, day = 1 \<rparr>,
             next_service_mileage = None \<rparr>"
  by code_simp

lemma oil_change_example:
  "calculateNextService z ''oil_change'' (parseFloat ''50000'') serviceDate
     = Inr \<lparr> next_service_date = None, next_service_mileage = Some (Fin 60000) \<rparr>"
  by (simp add: calculateNextService_def SERVICE_TYPES_find parse_mileages binary64_values)

text \<open>
  The worked example: an oil change recorded at 50000 is next due at 60000, and with
  59200 typed as the mileage it is due.
\<close>

lemma oil_change_due_example:
  "isServiceDue \<lparr> next_service_date = None, next_service_mileage = Some (Fin 60000) \<rparr>
     today ''59200''"
  by (simp add: isServiceDue_def num_truthy_def str_truthy_def parse_mileages js_sub_def
      binary64_values js_ge_def js_le_def)

text \<open>
  C6. A next mileage of 0 counts as absent. Saving an oil change with -10000 typed as the
  mileage stores the next mileage 0; with 500 typed as the mileage that row is never due,
  although 500 is at least 0 minus 1000.
\<close>

lemma saved_at_negative_mileage:
  "snd (services_handleSave argentina (Some ''u1'') example_day reliable_store
          (services_ready ''-10000'' [''oil_change''], [])) = [zero_threshold_row]"
  by code_simp

theorem zero_threshold_never_due:
  "snd (services_handleSave argentina (Some ''u1'') example_day reliable_store
          (services_ready ''-10000'' [''oil_change''], [])) = [zero_threshold_row]
   \<and> next_service_date zero_threshold_row = None
   \<and> next_service_mileage zero_threshold_row = Some (Fin 0)
   \<and> \<not> isServiceDue zero_threshold_row today ''500''
   \<and> js_ge (parseFloat ''500'') (js_sub (Fin 0) (Fin 1000))"
proof -
  have "\<not> isServiceDue zero_threshold_row today ''500''"
    by (simp add: isServiceDue_def zero_threshold_row_def num_truthy_def)
  moreover have "js_ge (parseFloat ''500'') (js_sub (Fin 0) (Fin 1000))"
    by code_simp
  ultimately show ?thesis
    by (simp add: saved_at_negative_mileage) (simp add: zero_threshold_row_def)
qed

theorem zero_threshold_never_due_witness:
  "str_truthy ''-10000'' \<and> length [''oil_change''] \<noteq> 0
   \<and> parseFloat ''-10000'' = Fin (- 10000)
   \<and> \<not> isServiceDue zero_threshold_row 0 ''500''"
  using zero_threshold_never_due [of 0]
  by (simp add: str_truthy_def parse_mileages)

section \<open>Saving services\<close>

lemma fresh_id_above: "r \<in> set db \<Longrightarrow> row_id r < fresh_id db"
  unfolding fresh_id_def by (induction db) auto

lemma insert_keeps_unique:
  assumes "unique_rows db"
    and "\<forall>r \<in> set db. \<not> (user_id r = user_id sd \<and> service_type r = service_type sd)"
  shows "unique_rows (insert_row sd db)"
proof -
  have "fresh_id db \<notin> row_id ` set db"
    using fresh_id_above [of _ db] by fastforce
  moreover have "(user_id sd, service_type sd) \<notin> (\<lambda>r. (user_id r, service_type r)) ` set db"
    using assms(2) by auto
  ultimately show ?thesis
    using assms(1) by (simp add: unique_rows_def insert_row_def)
qed

lemma update_keeps_columns:
  assumes "distinct (map row_id db)" "r0 \<in> set db" "row_id r0 = x"
    "user_id r0 = user_id sd" "service_type r0 = service_type sd"
  shows "map row_id (update_by_id x sd db) = map row_id db"
    and "map (\<lambda>r. (user_id r, service_type r)) (update_by_id x sd db)
           = map (\<lambda>r. (user_id r, service_type r)) db"
proof -
  show "map row_id (update_by_id x sd db) = map row_id db"
    by (simp add: update_by_id_def apply_update_def)
  have same: "r = r0" if "r \<in> set db" "row_id r = x" for r
    using assms(1,2,3) that by (meson distinct_map inj_onD)
  show "map (\<lambda>r. (user_id r, service_type r)) (update_by_id x sd db)
           = map (\<lambda>r. (user_id r, service_type r)) db"
    unfolding update_by_id_def map_map
  proof (rule map_cong [OF refl])
    fix r assume "r \<in> set db"
    then show "((\<lambda>r. (user_id r, service_type r)) \<circ> (\<lambda>r. if row_id r = x then apply_update sd r else r)) r
        = (user_id r, service_type r)"
      using same [of r] assms(4,5) by (auto simp add: apply_update_def)
  qed
qed

lemma update_keeps_unique:
  assumes "unique_rows db" "r0 \<in> set db" "row_id r0 = x"
    "user_id r0 = user_id sd" "service_type r0 = service_type sd"
  shows "unique_rows (update_by_id x sd db)"
  using assms update_keeps_columns [of db r0 x sd] by (simp add: unique_rows_def)

lemma select_hit:
  assumes "select_ids env i uid t db = Some (x # xs)"
  shows "\<exists>r0 \<in> set db. row_id r0 = x \<and> user_id r0 = uid \<and> service_type r0 = t"
proof -
  let ?rows = "filter (\<lambda>r. user_id r = uid \<and> service_type r = t) db"
  from assms have tk: "take 1 (map row_id ?rows) = x # xs"
    by (simp add: select_ids_def split: if_splits)
  then obtain r rs where rows: "?rows = r # rs"
    by (cases ?rows) auto
  with tk have "row_id r = x" by simp
  moreover from rows have "r \<in> set ?rows" by simp
  ultimately show ?thesis by auto
qed

lemma select_miss:
  assumes "\<not> select_fails env i" "select_ids env i uid t db = Some []"
  shows "\<forall>r \<in> set db. \<not> (user_id r = uid \<and> service_type r = t)"
proof -
  let ?rows = "filter (\<lambda>r. user_id r = uid \<and> service_type r = t) db"
  from assms have "take 1 (map row_id ?rows) = []"
    by (simp add: select_ids_def)
  then have "?rows = []" by simp
  then show ?thesis by (simp add: filter_empty_conv)
qed

lemma select_answers: "\<not> select_fails env i \<Longrightarrow> select_ids env i uid t db \<noteq> None"
  by (simp add: select_ids_def)

text \<open>
  As long as every lookup is answered, the saving loop keeps the invariant: a type with a row
  is updated in place and a type without one is inserted.
\<close>

lemma save_each_keeps_unique:
  assumes "\<forall>j. \<not> select_fails env j" "unique_rows db"
  shows "unique_rows (snd (save_each z env i uid m d ts db))"
  using assms(2)
proof (induction ts arbitrary: i db)
  case Nil
  then show ?case by simp
next
  case (Cons t ts)
  show ?case
  proof (cases "calculateNextService z t m d")
    case (Inl e)
    with Cons.prems show ?thesis by simp
  next
    case (Inr ns)
    let ?sd = "\<lparr> next_service_date = next_service_date ns,
                 next_service_mileage = next_service_mileage ns,
                 user_id = uid, service_type = t, service_date = d, current_mileage = m \<rparr>"
    from assms(1) obtain ids where ids: "select_ids env i uid t db = Some ids"
      using select_answers [of env i uid t db] by auto
    show ?thesis
    proof (cases ids)
      case Nil
      with ids assms(1) have "\<forall>r \<in> set db. \<not> (user_id r = uid \<and> service_type r = t)"
        using select_miss [of env i uid t db] by simp
      with Cons.prems have "unique_rows (insert_row ?sd db)"
        by (simp add: insert_keeps_unique)
      with Cons.IH [of "insert_row ?sd db" "Suc i"] Cons.prems show ?thesis
        by (simp add: Inr ids Nil)
    next
      case (Cons x xs)
      with ids obtain r0 where "r0 \<in> set db" "row_id r0 = x" "user_id r0 = uid" "service_type r0 = t"
        using select_hit [of env i uid t db x xs] by auto
      with Cons.prems have "unique_rows (update_by_id x ?sd db)"
        by (simp add: update_keeps_unique [of db r0 x ?sd])
      with Cons.IH [of "update_by_id x ?sd db" "Suc i"] Cons.prems show ?thesis
        by (simp add: Inr ids Cons)
    qed
  qed
qed



lemma first_oil_change:
  "snd (services_handleSave argentina (Some ''u1'') example_day reliable_store
          (services_ready ''50000'' [''oil_change''], [])) = one_oil_change"
  by code_simp

lemma second_oil_change_lookup_down:
  "snd (services_handleSave argentina (Some ''u1'') example_day lookup_down
          (services_ready ''60000'' [''oil_change''], one_oil_change)) =
     one_oil_change @
     [\<lparr> next_service_date = None, next_service_mileage = Some (Fin 70000),
        user_id = ''u1'', service_type = ''oil_change'', service_date = example_day,
        current_mileage = Fin 60000, row_id = 2 \<rparr>]"
  by code_simp

text \<open>
  C8. The loop reads only the data of the lookup's answer and inserts when the data is
  null, so a lookup that fails makes it insert. With one oil change of user u1 in the
  table, saving an oil change again while the lookup fails leaves two rows for that user
  and type.
\<close>

theorem failed_lookup_duplicates_service:
  "snd (services_handleSave argentina (Some ''u1'') example_day reliable_store
          (services_ready ''50000'' [''oil_change''], [])) = one_oil_change
   \<and> unique_rows one_oil_change
   \<and> map (\<lambda>r. (row_id r, user_id r, service_type r, next_service_mileage r))
        (snd (services_handleSave argentina (Some ''u1'') example_day lookup_down
                (services_ready ''60000'' [''oil_change''], one_oil_change)))
       = [(1, ''u1'', ''oil_change'', Some (Fin 60000)),
          (2, ''u1'', ''oil_change'', Some (Fin 70000))]
   \<and> \<not> unique_rows
         (snd (services_handleSave argentina (Some ''u1'') example_day lookup_down
                 (services_ready ''60000'' [''oil_change''], one_oil_change)))"
  by (simp add: first_oil_change second_oil_change_lookup_down)
     (simp add: one_oil_change_def unique_rows_def)

theorem failed_lookup_duplicates_service_witness:
  "str_truthy ''60000'' \<and> length [''oil_change''] \<noteq> 0 \<and> select_fails lookup_down 0
   \<and> \<not> write_fails lookup_down 0
   \<and> length (snd (services_handleSave argentina (Some ''u1'') example_day lookup_down
                (services_ready ''60000'' [''oil_change''], one_oil_change))) = 2"
proof -
  from failed_lookup_duplicates_service
  have "map (\<lambda>r. (row_id r, user_id r, service_type r, next_service_mileage r))
        (snd (services_handleSave argentina (Some ''u1'') example_day lookup_down
                (services_ready ''60000'' [''oil_change''], one_oil_change)))
       = [(1, ''u1'', ''oil_change'', Some (Fin 60000)),
          (2, ''u1'', ''oil_change'', Some (Fin 70000))]"
    by blast
  then have "length (map (\<lambda>r. (row_id r, user_id r, service_type r, next_service_mileage r))
        (snd (services_handleSave argentina (Some ''u1'') example_day lookup_down
                (services_ready ''60000'' [''oil_change''], one_oil_change)))) = 2"
    by simp
  then have "length (snd (services_handleSave argentina (Some ''u1'') example_day lookup_down
                (services_ready ''60000'' [''oil_change''], one_oil_change))) = 2"
    by (simp only: length_map)
  then show ?thesis
    by (simp add: str_truthy_def lookup_down_def)
qed







end
